theory Spec2Isabelle
  imports Main
begin

section \<open>Values of the facade\<close>

text \<open>
  A JavaScript error object: its message and its \<open>statusCode\<close> property.
  \<open>Error('...')\<close> builds an error whose \<open>statusCode\<close> is undefined (\<open>None\<close>).
\<close>

datatype js_error = Error (message: string) (statusCode: "int option")

text \<open>The three states of a promise.\<close>

datatype 'a promise = Pending | Fulfilled 'a | Rejected js_error

text \<open>\<open>'...' + err\<close>: the string conversion of an error object.\<close>

definition error_toString :: "js_error \<Rightarrow> string" where
  "error_toString err = ''Error: '' @ message err"

text \<open>A ROS time value \<open>{secs, nsecs}\<close> and the message of the clock topic.\<close>

record rostime =
  secs :: int
  nsecs :: int

record clock_msg =
  clock :: rostime

text \<open>
  Modelled from the spec: \<open>timeUtils.dateToRosTime(0)\<close> (utils/time_utils.js is not among
  the sources) is the zero time.
\<close>

definition zero_time :: rostime where
  "zero_time = \<lparr>secs = 0, nsecs = 0\<rparr>"

text \<open>
  Modelled from the spec: the node object of lib/RosNode.js, which is not among the
  sources. It keeps the name and the registry address it was built with and a flag
  that its shutdown sets.
\<close>

record RosNode =
  node_name :: string
  master_uri :: "string option"
  shutdown_flag :: bool

definition new_RosNode :: "string \<Rightarrow> string option \<Rightarrow> RosNode" where
  "new_RosNode nodeName rosMasterUri =
     \<lparr>node_name = nodeName, master_uri = rosMasterUri, shutdown_flag = False\<rparr>"

definition getNodeName :: "RosNode \<Rightarrow> string" where
  "getNodeName node = node_name node"

definition getRosMasterUri :: "RosNode \<Rightarrow> string" where
  "getRosMasterUri node = (case master_uri node of None \<Rightarrow> ''undefined'' | Some u \<Rightarrow> u)"

definition isShutdown :: "RosNode \<Rightarrow> bool" where
  "isShutdown node = shutdown_flag node"

definition RosNode_shutdown :: "RosNode \<Rightarrow> RosNode" where
  "RosNode_shutdown node = node\<lparr>shutdown_flag := True\<rparr>"

text \<open>\<open>new NodeHandle(rosNode, namespace)\<close>: the node it wraps (possibly null) and a namespace.\<close>

datatype NodeHandle = NodeHandle "RosNode option" "string option"

section \<open>Module state\<close>

text \<open>
  The module-level variables of the facade (\<open>rosNode\<close>, \<open>pingMasterTimeout\<close>) and of
  Time.js (\<open>useSimTime\<close>, \<open>simTime\<close>, \<open>simTimeSub\<close>), the timers of the event loop that
  are armed and have neither fired nor been cleared, and a record of the calls made
  to the outside: the delays given to \<open>setTimeout\<close>, the calls of \<open>getMasterUri\<close>, the
  parameters looked up, and what was handed to the logger.
\<close>

record state =
  rosNode :: "RosNode option"
  pingMasterTimeout :: "nat option"
  timers :: "nat set"
  nextTimer :: nat
  delays :: "int list"
  masterAttempts :: nat
  paramLookups :: "string list"
  errorLog :: "string list"
  infoLog :: "string list"
  warnLog :: "(int \<times> string) list"
  useSimTime :: bool
  simTime :: rostime
  simTimeSub :: "string option"

text \<open>The state of a process that has just loaded the two modules.\<close>

definition initial_state :: state where
  "initial_state =
     \<lparr>rosNode = None, pingMasterTimeout = None, timers = {}, nextTimer = 0, delays = [],
      masterAttempts = 0, paramLookups = [], errorLog = [], infoLog = [], warnLog = [],
      useSimTime = False, simTime = zero_time, simTimeSub = None\<rparr>"

subsection \<open>Timers\<close>

definition setTimeout :: "int \<Rightarrow> state \<Rightarrow> nat \<times> state" where
  "setTimeout delay s =
     (nextTimer s,
      s\<lparr>timers := insert (nextTimer s) (timers s),
        nextTimer := Suc (nextTimer s),
        delays := delays s @ [delay]\<rparr>)"

definition clearTimeout :: "nat option \<Rightarrow> state \<Rightarrow> state" where
  "clearTimeout handle s =
     (case handle of None \<Rightarrow> s | Some t \<Rightarrow> s\<lparr>timers := timers s - {t}\<rparr>)"

text \<open>A timer that fires leaves the set of armed timers.\<close>

definition timer_fired :: "nat \<Rightarrow> state \<Rightarrow> state" where
  "timer_fired t s = s\<lparr>timers := timers s - {t}\<rparr>"

subsection \<open>Logger\<close>

definition log_error :: "string \<Rightarrow> state \<Rightarrow> state" where
  "log_error msg s = s\<lparr>errorLog := errorLog s @ [msg]\<rparr>"

definition log_infoOnce :: "string \<Rightarrow> state \<Rightarrow> state" where
  "log_infoOnce msg s = s\<lparr>infoLog := infoLog s @ [msg]\<rparr>"

text \<open>
  Modelled from the spec: \<open>log.warnThrottle\<close> (lib/Logging.js is not among the sources)
  logs at most once per interval. A call at clock reading \<open>now\<close> emits when nothing was
  emitted before or the last emission is at least \<open>period\<close> old; \<open>warnLog\<close> holds the
  emitted warnings, the newest first.
\<close>

definition warnThrottle :: "int \<Rightarrow> int \<Rightarrow> string \<Rightarrow> state \<Rightarrow> state" where
  "warnThrottle period now msg s =
     (case warnLog s of
        [] \<Rightarrow> s\<lparr>warnLog := [(now, msg)]\<rparr>
      | (t, m) # older \<Rightarrow>
          if period \<le> now - t then s\<lparr>warnLog := (now, msg) # warnLog s\<rparr> else s)"

section \<open>Connecting to the master\<close>

text \<open>
  What one firing of the poll timer observes: whether the slave API server is set up,
  whether the single \<open>getMasterUri\<close> attempt succeeds, the value \<open>Date.now()\<close> has when the
  helper compares it with the deadline, and the clock reading of the logger.
\<close>

record tick =
  slaveApiSetupComplete :: bool
  masterResponds :: bool
  dateNow :: int
  logNow :: int

text \<open>\<open>Date.now() - startTime >= maxTimeout && !(maxTimeout < 0)\<close>\<close>

definition timedOut :: "int \<Rightarrow> int \<Rightarrow> int \<Rightarrow> bool" where
  "timedOut now startTime maxTimeout = (maxTimeout \<le> now - startTime \<and> \<not> maxTimeout < 0)"

text \<open>
  \<open>localHelper\<close> arms the timer and stores its handle; the list holds the observations of
  the firings that have happened so far, so an empty list leaves the promise pending
  with the timer armed. When the module's \<open>rosNode\<close> is null the callback throws and the
  promise is never settled.
\<close>

fun localHelper :: "int \<Rightarrow> int \<Rightarrow> int \<Rightarrow> tick list \<Rightarrow> state \<Rightarrow> unit promise \<times> state" where
  "localHelper timeout maxTimeout startTime [] s =
     (case setTimeout timeout s of
        (h, s1) \<Rightarrow> (Pending, s1\<lparr>pingMasterTimeout := Some h\<rparr>))"
| "localHelper timeout maxTimeout startTime (tk # rest) s =
     (case setTimeout timeout s of
        (h, s1) \<Rightarrow>
          let s2 = timer_fired h (s1\<lparr>pingMasterTimeout := Some h\<rparr>) in
          (case rosNode s2 of
             None \<Rightarrow> (Pending, s2)
           | Some node \<Rightarrow>
               if \<not> slaveApiSetupComplete tk then
                 if timedOut (dateNow tk) startTime maxTimeout then
                   (Rejected (Error ''Unable to setup slave API server.'' None),
                    log_error (''Unable to register with master node ['' @ getRosMasterUri node
                       @ '']: unable to set up slave API Server. Stopping...'') s2)
                 else localHelper timeout maxTimeout startTime rest s2
               else
                 let s3 = s2\<lparr>masterAttempts := Suc (masterAttempts s2)\<rparr> in
                 if masterResponds tk then
                   (Fulfilled (),
                    (log_infoOnce (''Connected to master at '' @ getRosMasterUri node @ ''!'') s3)
                      \<lparr>pingMasterTimeout := None\<rparr>)
                 else if timedOut (dateNow tk) startTime maxTimeout then
                   (Rejected (Error ''Registration with master timed out.'' None),
                    log_error (''Timed out before registering with master node [''
                       @ getRosMasterUri node @ '']: master may not be running yet.'') s3)
                 else
                   localHelper timeout maxTimeout startTime rest
                     (warnThrottle 60000 (logNow tk)
                        (''Unable to register with master node ['' @ getRosMasterUri node
                           @ '']: master may not be running yet. Will keep trying.'') s3)))"

text \<open>
  \<open>_checkMasterHelper(timeout = 100, maxTimeout = -1)\<close>; \<open>startTime\<close> is the value of
  \<open>Date.now()\<close> at the call.
\<close>

definition checkMasterHelper ::
  "int option \<Rightarrow> int option \<Rightarrow> int \<Rightarrow> tick list \<Rightarrow> state \<Rightarrow> unit promise \<times> state" where
  "checkMasterHelper timeout maxTimeout startTime ticks s =
     localHelper (case timeout of None \<Rightarrow> 100 | Some t \<Rightarrow> t)
       (case maxTimeout of None \<Rightarrow> - 1 | Some m \<Rightarrow> m) startTime ticks s"

text \<open>The two errors of the connect operation, under the names the specification gives them.\<close>

definition RegistrationTimeout :: js_error where
  "RegistrationTimeout = Error ''Unable to setup slave API server.'' None"

definition RegistryUnavailable :: js_error where
  "RegistryUnavailable = Error ''Registration with master timed out.'' None"

section \<open>Time.js\<close>

definition handleSimTimeMessage :: "clock_msg \<Rightarrow> state \<Rightarrow> state" where
  "handleSimTimeMessage msg s = s\<lparr>simTime := clock msg\<rparr>"

text \<open>
  \<open>Time.now()\<close>; \<open>wall\<close> is what \<open>timeUtils.now()\<close> would return at the call. The state
  is returned as the call leaves it.
\<close>

definition now :: "rostime \<Rightarrow> state \<Rightarrow> rostime \<times> state" where
  "now wall s = (if useSimTime s then (simTime s, s) else (wall, s))"

text \<open>The \<open>catch\<close> handler of \<open>_initializeRosTime\<close>.\<close>

definition initializeRosTime_catch :: "js_error \<Rightarrow> state \<Rightarrow> unit promise \<times> state" where
  "initializeRosTime_catch err s =
     (if statusCode err = None then (Rejected err, s) else (Fulfilled (), s))"

text \<open>
  \<open>Time._initializeRosTime(rosnodejs, notime)\<close>. \<open>getParam\<close> is the outcome of
  \<open>nh.getParam('/use_sim_time')\<close>: the error it rejects with, or the truth value of the
  parameter; \<open>subscribe\<close> is the error \<open>nh.subscribe\<close> throws, if it throws.
\<close>

definition initializeRosTime ::
  "js_error + bool \<Rightarrow> js_error option \<Rightarrow> bool \<Rightarrow> state \<Rightarrow> unit promise \<times> state" where
  "initializeRosTime getParam subscribe notime s =
     (if notime then (Fulfilled (), s)
      else
        let s1 = s\<lparr>paramLookups := paramLookups s @ [''/use_sim_time'']\<rparr> in
        (case getParam of
           Inr val \<Rightarrow>
             let s2 = s1\<lparr>useSimTime := val\<rparr> in
             if val then
               (case subscribe of
                  None \<Rightarrow> (Fulfilled (), s2\<lparr>simTimeSub := Some ''/clock''\<rparr>)
                | Some err \<Rightarrow> initializeRosTime_catch err s2)
             else (Fulfilled (), s2)
         | Inl err \<Rightarrow> initializeRosTime_catch err s1))"

text \<open>
  What happens to the clock module over time: a message arrives on the clock topic, or
  somebody calls \<open>now()\<close> while the wall clock reads \<open>wall\<close>.
\<close>

datatype time_event = ClockMessage clock_msg | CallNow rostime

fun run_time :: "time_event list \<Rightarrow> state \<Rightarrow> state" where
  "run_time [] s = s"
| "run_time (ClockMessage msg # evs) s = run_time evs (handleSimTimeMessage msg s)"
| "run_time (CallNow wall # evs) s = run_time evs (snd (now wall s))"

text \<open>The clock messages among the events, in the order of arrival.\<close>

definition received :: "time_event list \<Rightarrow> clock_msg list" where
  "received evs = concat (map (\<lambda>ev. case ev of ClockMessage msg \<Rightarrow> [msg] | CallNow w \<Rightarrow> []) evs)"

section \<open>The facade\<close>

definition startsWith :: "string \<Rightarrow> string \<Rightarrow> bool" where
  "startsWith str p = (take (length p) str = p)"

definition validateNodeName :: "string \<Rightarrow> string" where
  "validateNodeName nodeName = (if \<not> startsWith nodeName ''/'' then ''/'' @ nodeName else nodeName)"

text \<open>The decimal digits of a number, as \<open>util.format('%s', n)\<close> prints them.\<close>

function decimal :: "nat \<Rightarrow> string" where
  "decimal n =
     (if n < 10 then [''0123456789'' ! n]
      else decimal (n div 10) @ [''0123456789'' ! (n mod 10)])"
  by pat_completeness auto
termination
  by (relation "measure id") auto

declare decimal.simps [simp del]

definition decimal_int :: "int \<Rightarrow> string" where
  "decimal_int i = (if i < 0 then ''-'' @ decimal (nat (- i)) else decimal (nat i))"

text \<open>\<open>util.format('%s_%s_%s', nodeName, process.pid, Date.now())\<close>\<close>

definition anonymizeNodeName :: "nat \<Rightarrow> int \<Rightarrow> string \<Rightarrow> string" where
  "anonymizeNodeName pid dnow nodeName = nodeName @ ''_'' @ decimal pid @ ''_'' @ decimal_int dnow"

text \<open>The options of \<open>initNode\<close> that the facade itself reads.\<close>

record options =
  opt_anonymous :: bool
  opt_rosMasterUri :: "string option"
  opt_timeout :: "int option"
  opt_notime :: bool
  opt_onTheFly :: bool

text \<open>
  What the outside does during one \<open>initNode\<close>: the process id and the clock reading used
  to anonymize, the environment variable, the outcome of \<open>messages.getAll()\<close>, the clock
  reading at the start of the connect helper and the firings of its timer, the outcome
  of \<open>Logging.initializeRosOptions\<close>, and the outcomes of the parameter lookup and of the
  subscription to the clock topic.
\<close>

record env =
  env_pid :: nat
  env_dateNow :: int
  env_ROS_MASTER_URI :: "string option"
  env_getAll :: "js_error option"
  env_startTime :: int
  env_ticks :: "tick list"
  env_initializeRosOptions :: "js_error option"
  env_getParam :: "js_error + bool"
  env_subscribe :: "js_error option"

definition getNodeHandle :: "string option \<Rightarrow> state \<Rightarrow> NodeHandle" where
  "getNodeHandle namespace s = NodeHandle (rosNode s) namespace"

definition ok :: "state \<Rightarrow> bool" where
  "ok s = (case rosNode s of None \<Rightarrow> False | Some node \<Rightarrow> \<not> isShutdown node)"

definition reset :: "state \<Rightarrow> state" where
  "reset s = s\<lparr>rosNode := None\<rparr>"

text \<open>
  \<open>shutdown()\<close>. Modelled from the spec: \<open>rosNode.shutdown()\<close> marks the node as shut down
  and its promise resolves.
\<close>

definition shutdown :: "state \<Rightarrow> unit promise \<times> state" where
  "shutdown s =
     (let s1 = clearTimeout (pingMasterTimeout s) s in
      if ok s1 then
        (case rosNode s1 of
           Some node \<Rightarrow> (Fulfilled (), s1\<lparr>rosNode := Some (RosNode_shutdown node)\<rparr>)
         | None \<Rightarrow> (Fulfilled (), s1))
      else (Fulfilled (), s1))"

definition loadOnTheFlyMessages :: "js_error option \<Rightarrow> options \<Rightarrow> unit promise" where
  "loadOnTheFlyMessages getAll opts =
     (if opt_onTheFly opts then (case getAll of None \<Rightarrow> Fulfilled () | Some err \<Rightarrow> Rejected err)
      else Fulfilled ())"

text \<open>The \<open>catch\<close> handler at the end of the startup chain of \<open>initNode\<close>.\<close>

definition initNode_catch :: "js_error \<Rightarrow> state \<Rightarrow> NodeHandle promise \<times> state" where
  "initNode_catch err s =
     (Rejected err,
      snd (shutdown (log_error (''Error during initialization: '' @ error_toString err) s)))"

text \<open>The promise chain of \<open>initNode\<close>, run after the node object has been created.\<close>

definition initNode_startup :: "env \<Rightarrow> options \<Rightarrow> state \<Rightarrow> NodeHandle promise \<times> state" where
  "initNode_startup e opts s =
     (case loadOnTheFlyMessages (env_getAll e) opts of
        Rejected err \<Rightarrow> initNode_catch err s
      | Pending \<Rightarrow> (Pending, s)
      | Fulfilled u \<Rightarrow>
          (case checkMasterHelper (Some 100) (opt_timeout opts) (env_startTime e) (env_ticks e) s of
             (Rejected err, s1) \<Rightarrow> initNode_catch err s1
           | (Pending, s1) \<Rightarrow> (Pending, s1)
           | (Fulfilled u, s1) \<Rightarrow>
               (case env_initializeRosOptions e of
                  Some err \<Rightarrow> initNode_catch err s1
                | None \<Rightarrow>
                    (case initializeRosTime (env_getParam e) (env_subscribe e) (opt_notime opts) s1 of
                       (Rejected err, s2) \<Rightarrow> initNode_catch err s2
                     | (Pending, s2) \<Rightarrow> (Pending, s2)
                     | (Fulfilled u, s2) \<Rightarrow> (Fulfilled (getNodeHandle None s2), s2)))))"

text \<open>The name \<open>initNode\<close> gives the node: anonymized when asked, then validated.\<close>

definition resolvedNodeName :: "env \<Rightarrow> string \<Rightarrow> options \<Rightarrow> string" where
  "resolvedNodeName e nodeName opts =
     validateNodeName
       (if opt_anonymous opts then anonymizeNodeName (env_pid e) (env_dateNow e) nodeName
        else nodeName)"

text \<open>
  \<open>rosNode = new RosNode(nodeName, rosMasterUri, nodeOpts)\<close>, the address being the option
  when it is truthy (a non-empty string) and the environment variable otherwise. The
  call of \<open>Logging.initializeNodeLogger\<close> before it touches none of the variables of the model.
\<close>

definition initNode_create :: "env \<Rightarrow> string \<Rightarrow> options \<Rightarrow> state \<Rightarrow> state" where
  "initNode_create e nodeName opts s =
     (let rosMasterUri =
            (case opt_rosMasterUri opts of
               None \<Rightarrow> env_ROS_MASTER_URI e
             | Some u \<Rightarrow> if u \<noteq> [] then Some u else env_ROS_MASTER_URI e)
      in s\<lparr>rosNode := Some (new_RosNode nodeName rosMasterUri)\<rparr>)"

definition initNode :: "env \<Rightarrow> string \<Rightarrow> options \<Rightarrow> state \<Rightarrow> NodeHandle promise \<times> state" where
  "initNode e nodeName0 opts s =
     (let nodeName = resolvedNodeName e nodeName0 opts in
      case rosNode s of
        Some node \<Rightarrow>
          if nodeName = getNodeName node then (Fulfilled (getNodeHandle None s), s)
          else
            (Rejected (Error (''Unable to initialize node ['' @ nodeName @ ''] - node [''
                @ getNodeName node @ ''] already exists'') None), s)
      | None \<Rightarrow> initNode_startup e opts (initNode_create e nodeName opts s))"

text \<open>The error of a second \<open>initNode\<close> under another name, as the specification names it.\<close>

definition DuplicateNodeName :: "string \<Rightarrow> string \<Rightarrow> js_error" where
  "DuplicateNodeName nodeName existing =
     Error (''Unable to initialize node ['' @ nodeName @ ''] - node ['' @ existing
       @ ''] already exists'') None"

section \<open>Properties used in the statements\<close>

text \<open>
  Clock readings, the newest first, each at least \<open>p\<close> after the one before it.
\<close>

fun spaced :: "int \<Rightarrow> int list \<Rightarrow> bool" where
  "spaced p [] = True"
| "spaced p [t] = True"
| "spaced p (t # u # ts) = (p \<le> t - u \<and> spaced p (u # ts))"

text \<open>A firing of the poll timer that finds the slave server set up and the master responding.\<close>

definition attempt_succeeds :: "tick \<Rightarrow> bool" where
  "attempt_succeeds tk = (slaveApiSetupComplete tk \<and> masterResponds tk)"

section \<open>Sample runs\<close>

text \<open>A process in which a node \<open>/talker\<close> has been created and nothing else has happened.\<close>

definition talker_state :: state where
  "talker_state =
     initial_state\<lparr>rosNode := Some (new_RosNode ''/talker'' (Some ''http://localhost:11311''))\<rparr>"

text \<open>Firings of the poll timer at clock reading \<open>t\<close>.\<close>

definition slave_down :: "int \<Rightarrow> tick" where
  "slave_down t = \<lparr>slaveApiSetupComplete = False, masterResponds = False, dateNow = t, logNow = t\<rparr>"

definition master_down :: "int \<Rightarrow> tick" where
  "master_down t = \<lparr>slaveApiSetupComplete = True, masterResponds = False, dateNow = t, logNow = t\<rparr>"

definition master_up :: "int \<Rightarrow> tick" where
  "master_up t = \<lparr>slaveApiSetupComplete = True, masterResponds = True, dateNow = t, logNow = t\<rparr>"

definition sample_options :: options where
  "sample_options =
     \<lparr>opt_anonymous = False, opt_rosMasterUri = None, opt_timeout = None, opt_notime = False,
      opt_onTheFly = False\<rparr>"

text \<open>
  A start in which the master answers the second attempt and the parameter server
  answers the lookup with \<open>getParam\<close>.
\<close>

definition sample_env :: "js_error + bool \<Rightarrow> env" where
  "sample_env getParam =
     \<lparr>env_pid = 4242, env_dateNow = 1700000000000,
      env_ROS_MASTER_URI = Some ''http://localhost:11311'', env_getAll = None,
      env_startTime = 0, env_ticks = [master_down 100, master_up 200],
      env_initializeRosOptions = None, env_getParam = getParam, env_subscribe = None\<rparr>"

text \<open>A transport failure, and the reply of the parameter server for a parameter that is not set.\<close>

definition connection_refused :: js_error where
  "connection_refused = Error ''connect ECONNREFUSED'' None"

definition parameter_not_set :: js_error where
  "parameter_not_set = Error ''Parameter [/use_sim_time] is not set'' (Some (- 1))"

text \<open>Another reply of the parameter server that reports a failure with a status code.\<close>

definition internal_server_error :: js_error where
  "internal_server_error = Error ''Internal Server Error'' (Some 500)"

section \<open>Lemmas about the connect helper\<close>

lemmas connect_defs = setTimeout_def timer_fired_def log_error_def log_infoOnce_def
  warnThrottle_def Let_def

lemmas sample_defs = talker_state_def initial_state_def new_RosNode_def slave_down_def
  master_down_def master_up_def sample_options_def sample_env_def zero_time_def

lemma localHelper_rosNode:
  "rosNode (snd (localHelper t m st ticks s)) = rosNode s"
  by (induction ticks arbitrary: s)
     (simp_all add: connect_defs split: option.splits list.splits prod.splits)

lemma localHelper_Fulfilled:
  "fst (localHelper t m st ticks s) = Fulfilled u \<Longrightarrow> \<exists>tk\<in>set ticks. attempt_succeeds tk"
  by (induction ticks arbitrary: s)
     (auto simp add: connect_defs attempt_succeeds_def
           split: option.splits list.splits prod.splits if_splits)

lemma localHelper_slave_timeout:
  assumes "rosNode s \<noteq> None" "0 \<le> mx" "\<forall>p\<in>set pre. \<not> slaveApiSetupComplete p"
    "\<not> slaveApiSetupComplete tk" "mx \<le> dateNow tk - st"
  shows "fst (localHelper t mx st (pre @ tk # post) s) = Rejected RegistrationTimeout"
  using assms
  by (induction pre arbitrary: s)
     (auto simp add: connect_defs timedOut_def RegistrationTimeout_def
           split: option.splits prod.splits)

lemma localHelper_master_timeout:
  assumes "rosNode s \<noteq> None" "0 \<le> mx"
    "\<forall>p\<in>set pre. \<not> attempt_succeeds p \<and> dateNow p - st < mx"
    "slaveApiSetupComplete tk" "\<not> masterResponds tk" "mx \<le> dateNow tk - st"
  shows "fst (localHelper t mx st (pre @ tk # post) s) = Rejected RegistryUnavailable
    \<and> masterAttempts (snd (localHelper t mx st (pre @ tk # post) s))
        = Suc (masterAttempts s + length (filter slaveApiSetupComplete pre))"
  using assms
proof (induction pre arbitrary: s)
  case Nil
  then show ?case
    by (auto simp add: connect_defs timedOut_def RegistryUnavailable_def split: option.splits)
next
  case (Cons p pre)
  then show ?case
    by (auto simp add: connect_defs timedOut_def attempt_succeeds_def
          split: option.splits prod.splits list.splits)
qed

lemma localHelper_never_rejects:
  "m < 0 \<Longrightarrow> fst (localHelper t m st ticks s) \<noteq> Rejected err"
  by (induction ticks arbitrary: s)
     (auto simp add: connect_defs timedOut_def split: option.splits prod.splits)

lemma localHelper_keeps_retrying:
  assumes "rosNode s \<noteq> None" "m < 0" "\<forall>tk\<in>set ticks. \<not> attempt_succeeds tk"
  shows "fst (localHelper t m st ticks s) = Pending
    \<and> delays (snd (localHelper t m st ticks s)) = delays s @ replicate (Suc (length ticks)) t
    \<and> masterAttempts (snd (localHelper t m st ticks s))
        = masterAttempts s + length (filter slaveApiSetupComplete ticks)
    \<and> (\<exists>h. pingMasterTimeout (snd (localHelper t m st ticks s)) = Some h
          \<and> h \<in> timers (snd (localHelper t m st ticks s)))"
  using assms
proof (induction ticks arbitrary: s)
  case Nil
  then show ?case by (simp add: connect_defs)
next
  case (Cons tk ticks)
  then show ?case
    by (auto simp add: connect_defs timedOut_def replicate_append_same attempt_succeeds_def
         split: option.splits prod.splits list.splits)
qed

lemma localHelper_resolves:
  assumes "rosNode s \<noteq> None" "m < 0" "\<forall>tk\<in>set pre. \<not> attempt_succeeds tk"
     "attempt_succeeds tk"
  shows "fst (localHelper t m st (pre @ tk # post) s) = Fulfilled ()
    \<and> delays (snd (localHelper t m st (pre @ tk # post) s))
        = delays s @ replicate (Suc (length pre)) t
    \<and> masterAttempts (snd (localHelper t m st (pre @ tk # post) s))
        = Suc (masterAttempts s + length (filter slaveApiSetupComplete pre))"
  using assms
proof (induction pre arbitrary: s)
  case Nil
  then show ?case by (auto simp add: connect_defs attempt_succeeds_def)
next
  case (Cons p pre)
  then show ?case
    by (auto simp add: connect_defs timedOut_def replicate_append_same attempt_succeeds_def
         split: option.splits prod.splits list.splits)
qed

subsection \<open>Throttled warnings\<close>

lemma warnThrottle_spaced:
  "spaced p (map fst (warnLog s)) \<Longrightarrow> spaced p (map fst (warnLog (warnThrottle p tnow msg s)))"
  by (cases "warnLog s") (auto simp: warnThrottle_def)

lemma localHelper_spaced:
  "spaced 60000 (map fst (warnLog s)) \<Longrightarrow>
   spaced 60000 (map fst (warnLog (snd (localHelper t m st ticks s))))"
proof (induction ticks arbitrary: s)
  case Nil
  then show ?case by (simp add: setTimeout_def)
next
  case (Cons tk ticks)
  have w: "spaced 60000 (map fst (warnLog (warnThrottle 60000 tnow msg s')))"
    if "warnLog s' = warnLog s" for s' tnow msg
    using warnThrottle_spaced [of 60000 s' tnow msg] Cons.prems that by simp
  show ?case
    using Cons.prems
    by (auto simp add: setTimeout_def timer_fired_def log_error_def log_infoOnce_def Let_def
          split: option.splits prod.splits intro!: Cons.IH w)
qed

lemma spaced_below:
  "spaced p (t # ts) \<Longrightarrow> 0 \<le> p \<Longrightarrow> u \<in> set ts \<Longrightarrow> u \<le> t - p"
proof (induction ts arbitrary: t)
  case Nil
  then show ?case by simp
next
  case (Cons a ts)
  then show ?case by fastforce
qed

lemma spaced_window:
  assumes "spaced p ts" "0 < p"
  shows "length (filter (\<lambda>t. w \<le> t \<and> t < w + p) ts) \<le> 1"
  using assms
proof (induction ts)
  case Nil
  then show ?case by simp
next
  case (Cons t ts)
  have tl: "spaced p ts" using Cons.prems(1) by (cases ts) auto
  show ?case
  proof (cases "w \<le> t \<and> t < w + p")
    case True
    have "filter (\<lambda>t. w \<le> t \<and> t < w + p) ts = []"
    proof -
      have "\<not> (w \<le> u \<and> u < w + p)" if "u \<in> set ts" for u
        using spaced_below [OF Cons.prems(1) _ that] True Cons.prems(2) by simp
      then show ?thesis by (simp add: filter_empty_conv)
    qed
    then show ?thesis by simp
  next
    case False
    then show ?thesis using Cons.IH [OF tl Cons.prems(2)] by auto
  qed
qed

subsection \<open>What the startup leaves alone\<close>

lemma localHelper_frame:
  "paramLookups (snd (localHelper t m st ticks s)) = paramLookups s
   \<and> useSimTime (snd (localHelper t m st ticks s)) = useSimTime s
   \<and> simTime (snd (localHelper t m st ticks s)) = simTime s"
  by (induction ticks arbitrary: s)
     (simp_all add: connect_defs split: option.splits list.splits prod.splits)

lemma localHelper_timers:
  "timers (snd (localHelper t m st ticks s))
     \<subseteq> timers s \<union> set_option (pingMasterTimeout (snd (localHelper t m st ticks s)))"
proof (induction ticks arbitrary: s)
  case Nil
  then show ?case by (auto simp add: connect_defs)
next
  case (Cons tk ticks)
  have step: "timers (snd (localHelper t m st ticks s'))
     \<subseteq> timers s \<union> set_option (pingMasterTimeout (snd (localHelper t m st ticks s')))"
    if "timers s' \<subseteq> timers s" for s'
    using Cons.IH [of s'] that by blast
  show ?case
    by (auto simp add: setTimeout_def timer_fired_def log_error_def log_infoOnce_def Let_def
          warnThrottle_def
          split: option.splits prod.splits list.splits dest!: subsetD [OF step, rotated])
qed

lemma checkMasterHelper_frame:
  assumes "checkMasterHelper a b c d s = (r, s')"
  shows "rosNode s' = rosNode s \<and> paramLookups s' = paramLookups s
    \<and> useSimTime s' = useSimTime s \<and> simTime s' = simTime s"
proof -
  have "s' = snd (checkMasterHelper a b c d s)" using assms by simp
  then show ?thesis
    by (simp add: checkMasterHelper_def localHelper_rosNode localHelper_frame)
qed

lemma initializeRosTime_frame:
  assumes "initializeRosTime g sub nt s = (r, s')"
  shows "rosNode s' = rosNode s \<and> simTime s' = simTime s"
  using assms
  by (auto simp add: initializeRosTime_def initializeRosTime_catch_def Let_def
        split: sum.splits option.splits if_splits)

lemma shutdown_frame:
  "map_option getNodeName (rosNode (snd (shutdown s))) = map_option getNodeName (rosNode s)"
  "paramLookups (snd (shutdown s)) = paramLookups s"
  "useSimTime (snd (shutdown s)) = useSimTime s"
  "simTime (snd (shutdown s)) = simTime s"
  by (simp_all add: shutdown_def clearTimeout_def ok_def RosNode_shutdown_def getNodeName_def Let_def
        split: option.splits)

lemma initNode_catch_frame:
  "map_option getNodeName (rosNode (snd (initNode_catch err s))) = map_option getNodeName (rosNode s)"
  "paramLookups (snd (initNode_catch err s)) = paramLookups s"
  "useSimTime (snd (initNode_catch err s)) = useSimTime s"
  "simTime (snd (initNode_catch err s)) = simTime s"
  "fst (initNode_catch err s) = Rejected err"
  by (simp_all add: initNode_catch_def shutdown_frame log_error_def)

lemma initNode_startup_frame:
  "map_option getNodeName (rosNode (snd (initNode_startup e opts s))) = map_option getNodeName (rosNode s)"
  "simTime (snd (initNode_startup e opts s)) = simTime s"
  unfolding initNode_startup_def
  by (auto split: promise.splits prod.splits option.splits
           simp: initNode_catch_frame
           dest!: checkMasterHelper_frame initializeRosTime_frame)

lemma validateNodeName_startsWith: "startsWith (validateNodeName n) ''/''"
  by (simp add: validateNodeName_def startsWith_def)

section \<open>The connect operation\<close>

text \<open>
  C1. The connect operation resolves only when, at some firing of its poll timer, the
  slave server had finished binding and the master answered the attempt. And when a
  firing at or after a non-negative deadline (\<open>mx \<le> Date.now() - startTime\<close>) finds the
  slave server still not bound, as every firing before it did, the call fails with
  RegistrationTimeout, whatever would have come later.
\<close>

theorem connect_resolves_only_when_ready:
  "(fst (checkMasterHelper t m st ticks s) = Fulfilled () \<longrightarrow>
      (\<exists>tk\<in>set ticks. slaveApiSetupComplete tk \<and> masterResponds tk))
   \<and> (rosNode s \<noteq> None \<and> 0 \<le> mx \<and> (\<forall>p\<in>set pre. \<not> slaveApiSetupComplete p)
        \<and> \<not> slaveApiSetupComplete tk \<and> mx \<le> dateNow tk - st \<longrightarrow>
      fst (checkMasterHelper t (Some mx) st (pre @ tk # post) s) = Rejected RegistrationTimeout)"
proof (intro conjI impI)
  assume "fst (checkMasterHelper t m st ticks s) = Fulfilled ()"
  then show "\<exists>tk\<in>set ticks. slaveApiSetupComplete tk \<and> masterResponds tk"
    using localHelper_Fulfilled by (simp add: checkMasterHelper_def attempt_succeeds_def)
next
  assume "rosNode s \<noteq> None \<and> 0 \<le> mx \<and> (\<forall>p\<in>set pre. \<not> slaveApiSetupComplete p)
        \<and> \<not> slaveApiSetupComplete tk \<and> mx \<le> dateNow tk - st"
  then show "fst (checkMasterHelper t (Some mx) st (pre @ tk # post) s)
      = Rejected RegistrationTimeout"
    by (simp add: checkMasterHelper_def localHelper_slave_timeout)
qed

theorem connect_resolves_only_when_ready_witness:
  "fst (checkMasterHelper (Some 100) (Some 250) 0 [slave_down 100, master_up 200] talker_state)
     = Fulfilled ()
   \<and> (\<exists>tk\<in>set [slave_down 100, master_up 200]. slaveApiSetupComplete tk \<and> masterResponds tk)
   \<and> rosNode talker_state \<noteq> None
   \<and> \<not> slaveApiSetupComplete (slave_down 300) \<and> (250::int) \<le> dateNow (slave_down 300) - 0
   \<and> fst (checkMasterHelper (Some 100) (Some 250) 0
        ([slave_down 100, slave_down 200] @ slave_down 300 # [master_up 400]) talker_state)
     = Rejected RegistrationTimeout"
  using connect_resolves_only_when_ready [of "Some 100" "Some 250" 0
      "[slave_down 100, master_up 200]" talker_state 250 "[slave_down 100, slave_down 200]"
      "slave_down 300" "[master_up 400]"]
  by (simp add: checkMasterHelper_def connect_defs sample_defs timedOut_def)

text \<open>
  C2 (as stated, refuted). With \<open>maxTimeout = 0\<close> and a master that does not answer, a
  first firing of the poll timer that finds the slave API server not set up rejects with
  RegistrationTimeout, not RegistryUnavailable, and no connection attempt has been made.
\<close>

theorem connect_single_attempt_counterexample:
  "fst (checkMasterHelper (Some 100) (Some 0) 0 [slave_down 100] talker_state)
     = Rejected RegistrationTimeout
   \<and> fst (checkMasterHelper (Some 100) (Some 0) 0 [slave_down 100] talker_state)
     \<noteq> Rejected RegistryUnavailable
   \<and> masterResponds (slave_down 100) = False
   \<and> masterAttempts (snd (checkMasterHelper (Some 100) (Some 0) 0 [slave_down 100] talker_state))
     = masterAttempts talker_state"
  by (simp add: checkMasterHelper_def connect_defs sample_defs timedOut_def
        RegistrationTimeout_def RegistryUnavailable_def)

text \<open>
  C2 (amended). With \<open>maxTimeout = 0\<close>, a master that does not answer and a clock that has
  not gone back since the call, the call fails at the first firing of the poll timer,
  whatever would have come later, having armed one timer: when the slave API server is
  set up at that firing, exactly one connection attempt is made and the call fails with
  RegistryUnavailable; when it is not, no attempt is made and the call fails with
  RegistrationTimeout.
\<close>

theorem connect_single_attempt:
  assumes "rosNode s \<noteq> None" "\<not> masterResponds tk" "st \<le> dateNow tk"
  shows "(slaveApiSetupComplete tk \<longrightarrow>
            fst (checkMasterHelper t (Some 0) st (tk # rest) s) = Rejected RegistryUnavailable
          \<and> masterAttempts (snd (checkMasterHelper t (Some 0) st (tk # rest) s))
              = Suc (masterAttempts s))
       \<and> (\<not> slaveApiSetupComplete tk \<longrightarrow>
            fst (checkMasterHelper t (Some 0) st (tk # rest) s) = Rejected RegistrationTimeout
          \<and> masterAttempts (snd (checkMasterHelper t (Some 0) st (tk # rest) s))
              = masterAttempts s)
       \<and> delays (snd (checkMasterHelper t (Some 0) st (tk # rest) s))
            = delays s @ [case t of None \<Rightarrow> 100 | Some d \<Rightarrow> d]"
  using assms
  by (auto simp add: checkMasterHelper_def connect_defs timedOut_def
        RegistrationTimeout_def RegistryUnavailable_def split: option.splits)

theorem connect_single_attempt_witness:
  "rosNode talker_state \<noteq> None \<and> \<not> masterResponds (master_down 100)
   \<and> (0::int) \<le> dateNow (master_down 100)
   \<and> slaveApiSetupComplete (master_down 100)
   \<and> fst (checkMasterHelper (Some 100) (Some 0) 0 [master_down 100, master_up 200] talker_state)
       = Rejected RegistryUnavailable
   \<and> masterAttempts (snd (checkMasterHelper (Some 100) (Some 0) 0
         [master_down 100, master_up 200] talker_state)) = 1
   \<and> delays (snd (checkMasterHelper (Some 100) (Some 0) 0
         [master_down 100, master_up 200] talker_state)) = [100]"
  using connect_single_attempt [of talker_state "master_down 100" 0 "Some 100" "[master_up 200]"]
  by (simp add: checkMasterHelper_def connect_defs sample_defs timedOut_def
        RegistryUnavailable_def)

text \<open>
  C3. With a negative \<open>maxTimeout\<close> (the default when none is given) the call never
  fails. As long as no firing of the poll timer finds both the slave API server set up
  and the master answering, the promise stays pending, a timer with the same fixed
  delay has been armed again after every firing and is armed now, and one connection
  attempt has been made at every firing that found the slave API server set up. At the
  first firing whose attempt the master answers the call resolves.
\<close>

theorem connect_retries_forever:
  assumes "m = None \<or> (\<exists>mx. m = Some mx \<and> mx < 0)"
  shows "fst (checkMasterHelper t m st ticks s) \<noteq> Rejected err
    \<and> (rosNode s \<noteq> None \<and> (\<forall>tk\<in>set ticks. \<not> attempt_succeeds tk) \<longrightarrow>
          fst (checkMasterHelper t m st ticks s) = Pending
        \<and> delays (snd (checkMasterHelper t m st ticks s))
            = delays s @ replicate (Suc (length ticks)) (case t of None \<Rightarrow> 100 | Some d \<Rightarrow> d)
        \<and> masterAttempts (snd (checkMasterHelper t m st ticks s))
            = masterAttempts s + length (filter slaveApiSetupComplete ticks)
        \<and> (\<exists>h. pingMasterTimeout (snd (checkMasterHelper t m st ticks s)) = Some h
              \<and> h \<in> timers (snd (checkMasterHelper t m st ticks s))))
    \<and> (rosNode s \<noteq> None \<and> (\<forall>tk\<in>set pre. \<not> attempt_succeeds tk) \<and> attempt_succeeds tk' \<longrightarrow>
          fst (checkMasterHelper t m st (pre @ tk' # post) s) = Fulfilled ()
        \<and> delays (snd (checkMasterHelper t m st (pre @ tk' # post) s))
            = delays s @ replicate (Suc (length pre)) (case t of None \<Rightarrow> 100 | Some d \<Rightarrow> d)
        \<and> masterAttempts (snd (checkMasterHelper t m st (pre @ tk' # post) s))
            = Suc (masterAttempts s + length (filter slaveApiSetupComplete pre)))"
proof -
  let ?m = "case m of None \<Rightarrow> - 1 | Some x \<Rightarrow> x"
  have neg: "?m < 0" using assms by auto
  show ?thesis
    unfolding checkMasterHelper_def
    using localHelper_never_rejects [OF neg] localHelper_keeps_retrying [OF _ neg]
      localHelper_resolves [OF _ neg]
    by blast
qed

theorem connect_retries_forever_witness:
  "fst (checkMasterHelper (Some 100) (Some (- 1)) 0
        [slave_down 100, master_down 200, master_down 300] talker_state) = Pending
   \<and> delays (snd (checkMasterHelper (Some 100) (Some (- 1)) 0
        [slave_down 100, master_down 200, master_down 300] talker_state)) = [100, 100, 100, 100]
   \<and> masterAttempts (snd (checkMasterHelper (Some 100) (Some (- 1)) 0
        [slave_down 100, master_down 200, master_down 300] talker_state)) = 2
   \<and> fst (checkMasterHelper (Some 100) (Some (- 1)) 0
        ([slave_down 100, master_down 200, master_down 300] @ master_up 400 # [master_down 500])
        talker_state) = Fulfilled ()
   \<and> masterAttempts (snd (checkMasterHelper (Some 100) (Some (- 1)) 0
        ([slave_down 100, master_down 200, master_down 300] @ master_up 400 # [master_down 500])
        talker_state)) = 3"
  using connect_retries_forever [of "Some (- 1)" "Some 100" 0
      "[slave_down 100, master_down 200, master_down 300]" talker_state RegistryUnavailable
      "[slave_down 100, master_down 200, master_down 300]" "master_up 400" "[master_down 500]"]
  by (simp add: checkMasterHelper_def connect_defs sample_defs timedOut_def attempt_succeeds_def)

text \<open>
  C9. During the retry loop at most one warning is emitted in any window of 60 seconds
  \<open>[w, w + 60000)\<close>, however many attempts fail in it: after any number of firings of the
  poll timer, the log of a logger that was throttled so far holds at most one warning
  with a time stamp in the window.
\<close>

theorem warnings_throttled:
  assumes "spaced 60000 (map fst (warnLog s))"
  shows "length (filter (\<lambda>stamp. w \<le> stamp \<and> stamp < w + 60000)
            (map fst (warnLog (snd (checkMasterHelper t m st ticks s))))) \<le> 1"
  unfolding checkMasterHelper_def
  by (rule spaced_window [OF localHelper_spaced [OF assms]]) simp

theorem warnings_throttled_witness:
  "spaced 60000 (map fst (warnLog talker_state))
   \<and> map fst (warnLog (snd (checkMasterHelper (Some 100) None 0
        [master_down 100, master_down 200, master_down 59900, master_down 60100, master_down 60200]
        talker_state))) = [60100, 100]
   \<and> length (filter (\<lambda>stamp. 100 \<le> stamp \<and> stamp < 100 + 60000)
        (map fst (warnLog (snd (checkMasterHelper (Some 100) None 0
        [master_down 100, master_down 200, master_down 59900, master_down 60100, master_down 60200]
        talker_state))))) \<le> 1"
  using warnings_throttled [of talker_state 100 "Some 100" None 0
      "[master_down 100, master_down 200, master_down 59900, master_down 60100, master_down 60200]"]
  by (simp add: checkMasterHelper_def connect_defs sample_defs timedOut_def)

section \<open>Creating the node\<close>

text \<open>
  C8. Every node created by \<open>initNode\<close> (no node existed before the call) carries the
  name \<open>initNode\<close> resolved, anonymized or not, and that name starts with \<open>/\<close>; this holds
  however the startup that follows ends.
\<close>

theorem node_name_starts_with_separator:
  assumes "rosNode s = None"
  shows "\<exists>node. rosNode (snd (initNode e nodeName opts s)) = Some node
     \<and> getNodeName node = resolvedNodeName e nodeName opts
     \<and> startsWith (getNodeName node) ''/''"
proof -
  have "initNode e nodeName opts s
      = initNode_startup e opts (initNode_create e (resolvedNodeName e nodeName opts) opts s)"
    using assms by (simp add: initNode_def Let_def)
  then have "map_option getNodeName (rosNode (snd (initNode e nodeName opts s)))
     = Some (resolvedNodeName e nodeName opts)"
    by (simp add: initNode_startup_frame initNode_create_def new_RosNode_def getNodeName_def)
  then show ?thesis
    by (auto simp: resolvedNodeName_def validateNodeName_startsWith)
qed

theorem node_name_starts_with_separator_witness:
  "rosNode initial_state = None
   \<and> (\<exists>node. rosNode (snd (initNode (sample_env (Inr False)) ''talker''
          (sample_options\<lparr>opt_anonymous := True\<rparr>) initial_state)) = Some node
     \<and> getNodeName node = ''/talker_4242_1700000000000''
     \<and> startsWith (getNodeName node) ''/'')"
proof -
  have d: "decimal 4242 = ''4242''" "decimal_int 1700000000000 = ''1700000000000''"
    by (simp_all add: decimal_int_def decimal.simps)
  have "resolvedNodeName (sample_env (Inr False)) ''talker'' (sample_options\<lparr>opt_anonymous := True\<rparr>)
     = ''/talker_4242_1700000000000''"
    by (simp add: resolvedNodeName_def sample_defs anonymizeNodeName_def d validateNodeName_def
          startsWith_def)
  then show ?thesis
    using node_name_starts_with_separator [of initial_state "sample_env (Inr False)" "''talker''"
        "sample_options\<lparr>opt_anonymous := True\<rparr>"]
    by (simp add: initial_state_def)
qed

text \<open>
  C6. When a node exists, an \<open>initNode\<close> call whose resolved name differs from the name of
  that node is rejected with DuplicateNodeName, and the state of the process, the
  existing node included, is what it was.
\<close>

theorem second_node_rejected:
  assumes "rosNode s = Some node" "resolvedNodeName e nodeName opts \<noteq> getNodeName node"
  shows "initNode e nodeName opts s
    = (Rejected (DuplicateNodeName (resolvedNodeName e nodeName opts) (getNodeName node)), s)"
  using assms by (simp add: initNode_def DuplicateNodeName_def Let_def)

theorem second_node_rejected_witness:
  "rosNode talker_state = Some (new_RosNode ''/talker'' (Some ''http://localhost:11311''))
   \<and> resolvedNodeName (sample_env (Inr False)) ''listener'' sample_options = ''/listener''
   \<and> ''/listener'' \<noteq> getNodeName (new_RosNode ''/talker'' (Some ''http://localhost:11311''))
   \<and> initNode (sample_env (Inr False)) ''listener'' sample_options talker_state
     = (Rejected (Error ''Unable to initialize node [/listener] - node [/talker] already exists'' None),
        talker_state)"
  using second_node_rejected [of talker_state "new_RosNode ''/talker'' (Some ''http://localhost:11311'')"
      "sample_env (Inr False)" "''listener''" sample_options]
  by (simp add: sample_defs resolvedNodeName_def validateNodeName_def startsWith_def
        getNodeName_def DuplicateNodeName_def)

text \<open>
  C10. When a node exists, an \<open>initNode\<close> call whose resolved name is the name of that node
  resolves with a handle to that node and leaves the state of the process as it was: no
  node is created, no timer armed and no connection attempt made.
\<close>

theorem same_name_returns_handle:
  assumes "rosNode s = Some node" "resolvedNodeName e nodeName opts = getNodeName node"
  shows "initNode e nodeName opts s = (Fulfilled (NodeHandle (Some node) None), s)"
  using assms by (simp add: initNode_def getNodeHandle_def Let_def)

theorem same_name_returns_handle_witness:
  "rosNode talker_state = Some (new_RosNode ''/talker'' (Some ''http://localhost:11311''))
   \<and> resolvedNodeName (sample_env (Inr False)) ''talker'' sample_options
       = getNodeName (new_RosNode ''/talker'' (Some ''http://localhost:11311''))
   \<and> initNode (sample_env (Inr False)) ''talker'' sample_options talker_state
     = (Fulfilled (NodeHandle (Some (new_RosNode ''/talker'' (Some ''http://localhost:11311''))) None),
        talker_state)
   \<and> masterAttempts (snd (initNode (sample_env (Inr False)) ''talker'' sample_options talker_state)) = 0"
  using same_name_returns_handle [of talker_state "new_RosNode ''/talker'' (Some ''http://localhost:11311'')"
      "sample_env (Inr False)" "''talker''" sample_options]
  by (simp add: sample_defs resolvedNodeName_def validateNodeName_def startsWith_def
        getNodeName_def)

section \<open>Shutdown\<close>

lemmas run_defs = checkMasterHelper_def connect_defs sample_defs timedOut_def
  initNode_def initNode_create_def initNode_startup_def initNode_catch_def
  loadOnTheFlyMessages_def initializeRosTime_def initializeRosTime_catch_def
  resolvedNodeName_def validateNodeName_def startsWith_def getNodeHandle_def
  shutdown_def clearTimeout_def ok_def isShutdown_def RosNode_shutdown_def

lemma shutdown_not_ok: "\<not> ok (snd (shutdown s))"
  by (simp add: shutdown_def clearTimeout_def ok_def RosNode_shutdown_def isShutdown_def Let_def
        split: option.splits)

lemma shutdown_when_not_ok:
  "\<not> ok s \<Longrightarrow> shutdown s = (Fulfilled (), clearTimeout (pingMasterTimeout s) s)"
  by (simp add: shutdown_def clearTimeout_def ok_def Let_def split: option.splits)

lemma shutdown_timers:
  "timers (snd (shutdown s)) = timers s - set_option (pingMasterTimeout s)"
  "pingMasterTimeout (snd (shutdown s)) = pingMasterTimeout s"
  by (simp_all add: shutdown_def clearTimeout_def ok_def Let_def split: option.splits)

lemma clearTimeout_idem:
  "clearTimeout (pingMasterTimeout s) (clearTimeout (pingMasterTimeout s) s)
     = clearTimeout (pingMasterTimeout s) s"
  by (simp add: clearTimeout_def split: option.splits)

text \<open>
  C7. Shutdown is idempotent. After any shutdown call the timer whose handle is in
  \<open>pingMasterTimeout\<close> is not armed, and of the timers the connect helper armed none is
  left; the call resolves. When the node is already shut down (or none exists) the
  call resolves and the state is what it was but for that cancelled timer, and exactly
  what it was when no such timer was armed; so a second shutdown after a first changes
  nothing.
\<close>

theorem shutdown_idempotent:
  "(\<forall>h. pingMasterTimeout s = Some h \<longrightarrow> h \<notin> timers (snd (shutdown s)))
   \<and> timers (snd (shutdown (snd (checkMasterHelper t m st ticks s)))) \<subseteq> timers s
   \<and> fst (shutdown s) = Fulfilled ()
   \<and> (\<not> ok s \<longrightarrow> shutdown s = (Fulfilled (), clearTimeout (pingMasterTimeout s) s))
   \<and> (\<not> ok s \<and> (\<forall>h. pingMasterTimeout s = Some h \<longrightarrow> h \<notin> timers s) \<longrightarrow>
        shutdown s = (Fulfilled (), s))
   \<and> \<not> ok (snd (shutdown s))
   \<and> shutdown (snd (shutdown s)) = (Fulfilled (), snd (shutdown s))"
proof (intro conjI)
  show "\<forall>h. pingMasterTimeout s = Some h \<longrightarrow> h \<notin> timers (snd (shutdown s))"
    by (simp add: shutdown_timers)
  show "timers (snd (shutdown (snd (checkMasterHelper t m st ticks s)))) \<subseteq> timers s"
    using localHelper_timers [of "case t of None \<Rightarrow> 100 | Some t \<Rightarrow> t"
        "case m of None \<Rightarrow> - 1 | Some m \<Rightarrow> m" st ticks s]
    by (auto simp add: shutdown_timers checkMasterHelper_def)
  show "fst (shutdown s) = Fulfilled ()"
    by (simp add: shutdown_def Let_def split: option.splits)
  show "\<not> ok s \<longrightarrow> shutdown s = (Fulfilled (), clearTimeout (pingMasterTimeout s) s)"
    by (simp add: shutdown_when_not_ok)
  show "\<not> ok s \<and> (\<forall>h. pingMasterTimeout s = Some h \<longrightarrow> h \<notin> timers s) \<longrightarrow>
        shutdown s = (Fulfilled (), s)"
    by (auto simp add: shutdown_when_not_ok clearTimeout_def split: option.splits)
  show "\<not> ok (snd (shutdown s))"
    by (rule shutdown_not_ok)
  have "shutdown (snd (shutdown s))
      = (Fulfilled (), clearTimeout (pingMasterTimeout (snd (shutdown s))) (snd (shutdown s)))"
    by (rule shutdown_when_not_ok [OF shutdown_not_ok])
  moreover have "clearTimeout (pingMasterTimeout (snd (shutdown s))) (snd (shutdown s))
      = snd (shutdown s)"
    by (simp add: shutdown_def clearTimeout_def ok_def Let_def split: option.splits)
  ultimately show "shutdown (snd (shutdown s)) = (Fulfilled (), snd (shutdown s))"
    by simp
qed

theorem shutdown_idempotent_witness:
  "pingMasterTimeout (snd (checkMasterHelper (Some 100) None 0 [master_down 100] talker_state))
     = Some 1
   \<and> timers (snd (checkMasterHelper (Some 100) None 0 [master_down 100] talker_state)) = {1}
   \<and> ok (snd (checkMasterHelper (Some 100) None 0 [master_down 100] talker_state))
   \<and> timers (snd (shutdown (snd (checkMasterHelper (Some 100) None 0 [master_down 100]
        talker_state)))) = {}
   \<and> \<not> ok (snd (shutdown (snd (checkMasterHelper (Some 100) None 0 [master_down 100]
        talker_state))))
   \<and> shutdown (snd (shutdown (snd (checkMasterHelper (Some 100) None 0 [master_down 100]
        talker_state))))
      = (Fulfilled (), snd (shutdown (snd (checkMasterHelper (Some 100) None 0 [master_down 100]
        talker_state))))"
  using shutdown_idempotent [where s = "snd (checkMasterHelper (Some 100) None 0 [master_down 100]
        talker_state)" and t = "Some 100" and m = None and st = 0 and ticks = "[master_down 100]"]
    shutdown_idempotent [where s = "snd (shutdown (snd (checkMasterHelper (Some 100) None 0
        [master_down 100] talker_state)))" and t = "Some 100" and m = None and st = 0
        and ticks = "[]"]
  by (simp add: run_defs)

section \<open>The clock\<close>

lemma run_time_useSimTime: "useSimTime (run_time evs s) = useSimTime s"
proof (induction evs arbitrary: s)
  case Nil
  then show ?case by simp
next
  case (Cons ev evs)
  then show ?case by (cases ev) (simp_all add: handleSimTimeMessage_def now_def)
qed

lemma run_time_simTime:
  "simTime (run_time evs s)
     = (if received evs = [] then simTime s else clock (last (received evs)))"
proof (induction evs arbitrary: s)
  case Nil
  then show ?case by (simp add: received_def)
next
  case (Cons ev evs)
  then show ?case
    by (cases ev) (simp_all add: handleSimTimeMessage_def now_def received_def)
qed

lemma initNode_simTime: "simTime (snd (initNode e n opts s)) = simTime s"
  by (simp add: initNode_def initNode_startup_frame initNode_create_def Let_def
        split: option.splits)

text \<open>
  C5. In simulated-time mode \<open>now()\<close> returns the clock value of the last message that
  arrived on the clock topic, and the value stored before when none has arrived, which
  after a start from a fresh process is the zero time; the wall clock readings and the
  earlier calls of \<open>now()\<close> among the events make no difference, and a call of \<open>now()\<close>
  leaves the state as it was.
\<close>

theorem sim_time_now:
  "(useSimTime s \<longrightarrow>
      fst (now wall (run_time evs s))
        = (if received evs = [] then simTime s else clock (last (received evs))))
   \<and> snd (now wall s) = s
   \<and> (useSimTime (snd (initNode e n opts initial_state)) \<longrightarrow>
        fst (now wall (run_time evs (snd (initNode e n opts initial_state))))
          = (if received evs = [] then zero_time else clock (last (received evs))))"
  by (simp add: now_def run_time_useSimTime run_time_simTime initNode_simTime)
     (simp add: initial_state_def)

theorem sim_time_now_witness:
  "useSimTime (snd (initNode (sample_env (Inr True)) ''talker'' sample_options initial_state))
   \<and> fst (now \<lparr>secs = 1700000000, nsecs = 0\<rparr>
        (run_time [CallNow \<lparr>secs = 1699999999, nsecs = 0\<rparr>]
          (snd (initNode (sample_env (Inr True)) ''talker'' sample_options initial_state))))
      = zero_time
   \<and> fst (now \<lparr>secs = 1700000002, nsecs = 0\<rparr>
        (run_time
          [ClockMessage \<lparr>clock = \<lparr>secs = 5, nsecs = 0\<rparr>\<rparr>,
           CallNow \<lparr>secs = 1700000001, nsecs = 0\<rparr>,
           ClockMessage \<lparr>clock = \<lparr>secs = 7, nsecs = 500\<rparr>\<rparr>,
           CallNow \<lparr>secs = 1700000001, nsecs = 900\<rparr>]
          (snd (initNode (sample_env (Inr True)) ''talker'' sample_options initial_state))))
      = \<lparr>secs = 7, nsecs = 500\<rparr>"
  using sim_time_now [where s = "snd (initNode (sample_env (Inr True)) ''talker'' sample_options
        initial_state)" and e = "sample_env (Inr True)" and n = "''talker''"
        and opts = sample_options and wall = "\<lparr>secs = 1700000000, nsecs = 0\<rparr>"
        and evs = "[CallNow \<lparr>secs = 1699999999, nsecs = 0\<rparr>]"]
    sim_time_now [where s = "snd (initNode (sample_env (Inr True)) ''talker'' sample_options
        initial_state)" and e = "sample_env (Inr True)" and n = "''talker''"
        and opts = sample_options and wall = "\<lparr>secs = 1700000002, nsecs = 0\<rparr>"
        and evs = "[ClockMessage \<lparr>clock = \<lparr>secs = 5, nsecs = 0\<rparr>\<rparr>,
           CallNow \<lparr>secs = 1700000001, nsecs = 0\<rparr>,
           ClockMessage \<lparr>clock = \<lparr>secs = 7, nsecs = 500\<rparr>\<rparr>,
           CallNow \<lparr>secs = 1700000001, nsecs = 900\<rparr>]"]
  by (simp add: run_defs now_def received_def handleSimTimeMessage_def)

lemma initNode_startup_reaches_time:
  assumes "loadOnTheFlyMessages (env_getAll e) opts = Fulfilled ()"
    and "checkMasterHelper (Some 100) (opt_timeout opts) (env_startTime e) (env_ticks e) s0
           = (Fulfilled (), s1)"
    and "env_initializeRosOptions e = None"
  shows "initNode_startup e opts s0
    = (case initializeRosTime (env_getParam e) (env_subscribe e) (opt_notime opts) s1 of
         (Rejected err, s2) \<Rightarrow> initNode_catch err s2
       | (Pending, s2) \<Rightarrow> (Pending, s2)
       | (Fulfilled u, s2) \<Rightarrow> (Fulfilled (getNodeHandle None s2), s2))"
  using assms by (simp add: initNode_startup_def)

text \<open>
  C4 (as stated, refuted). Two runs of \<open>initNode\<close> from a fresh process. Started with the
  \<open>notime\<close> option, it looks no parameter up, and the startup resolves. Started without
  it, with a lookup that fails with a reply that carries a status code and is not the
  reply for a parameter that is not set, it looks the parameter up and the startup
  resolves all the same: the failure is tolerated, not rejected.
\<close>

theorem clock_mode_lookup_counterexample:
  "opt_notime (sample_options\<lparr>opt_notime := True\<rparr>)
   \<and> paramLookups (snd (initNode (sample_env (Inl connection_refused)) ''talker''
        (sample_options\<lparr>opt_notime := True\<rparr>) initial_state)) = []
   \<and> fst (initNode (sample_env (Inl connection_refused)) ''talker''
        (sample_options\<lparr>opt_notime := True\<rparr>) initial_state)
      = Fulfilled (NodeHandle (Some (new_RosNode ''/talker'' (Some ''http://localhost:11311''))) None)
   \<and> \<not> opt_notime sample_options
   \<and> internal_server_error \<noteq> parameter_not_set
   \<and> env_getParam (sample_env (Inl internal_server_error)) = Inl internal_server_error
   \<and> paramLookups (snd (initNode (sample_env (Inl internal_server_error)) ''talker''
        sample_options initial_state)) = [''/use_sim_time'']
   \<and> fst (initNode (sample_env (Inl internal_server_error)) ''talker'' sample_options
        initial_state)
      = Fulfilled (NodeHandle (Some (new_RosNode ''/talker'' (Some ''http://localhost:11311''))) None)
   \<and> fst (initNode (sample_env (Inl internal_server_error)) ''talker'' sample_options
        initial_state) \<noteq> Rejected internal_server_error"
  by (simp add: run_defs connection_refused_def internal_server_error_def parameter_not_set_def)

text \<open>
  C4 (amended). Take a startup that reaches the initialization of the clock mode. With
  the \<open>notime\<close> option no parameter is looked up and the startup resolves. Without it,
  the parameter \<open>/use_sim_time\<close> is looked up once; when the lookup fails with an error
  that carries no status code, the startup promise rejects with that error; when it
  fails with an error that carries a status code, that of a parameter that is not set
  or any other, the startup resolves, and a process whose clock was in wall-clock mode
  at the start is in wall-clock mode after it: \<open>now()\<close> returns the wall clock.
\<close>

theorem clock_mode_lookup:
  assumes "rosNode s = None"
    and "loadOnTheFlyMessages (env_getAll e) opts = Fulfilled ()"
    and "fst (checkMasterHelper (Some 100) (opt_timeout opts) (env_startTime e) (env_ticks e)
           (initNode_create e (resolvedNodeName e n opts) opts s)) = Fulfilled ()"
    and "env_initializeRosOptions e = None"
  shows "(opt_notime opts \<longrightarrow>
            paramLookups (snd (initNode e n opts s)) = paramLookups s
          \<and> (\<exists>h. fst (initNode e n opts s) = Fulfilled h))
    \<and> (\<not> opt_notime opts \<longrightarrow>
            paramLookups (snd (initNode e n opts s)) = paramLookups s @ [''/use_sim_time''])
    \<and> (\<not> opt_notime opts \<and> env_getParam e = Inl err \<and> statusCode err = None \<longrightarrow>
            fst (initNode e n opts s) = Rejected err)
    \<and> (\<not> opt_notime opts \<and> env_getParam e = Inl err \<and> statusCode err \<noteq> None \<longrightarrow>
            (\<exists>h. fst (initNode e n opts s) = Fulfilled h)
          \<and> (\<not> useSimTime s \<longrightarrow>
                \<not> useSimTime (snd (initNode e n opts s))
              \<and> fst (now wall (snd (initNode e n opts s))) = wall))"
proof -
  let ?s0 = "initNode_create e (resolvedNodeName e n opts) opts s"
  obtain s1 where cm: "checkMasterHelper (Some 100) (opt_timeout opts) (env_startTime e)
      (env_ticks e) ?s0 = (Fulfilled (), s1)"
    using assms(3) by (metis prod.collapse)
  have fr: "paramLookups s1 = paramLookups s" "useSimTime s1 = useSimTime s"
    using checkMasterHelper_frame [OF cm] by (simp_all add: initNode_create_def Let_def)
  have i: "initNode e n opts s
    = (case initializeRosTime (env_getParam e) (env_subscribe e) (opt_notime opts) s1 of
         (Rejected err, s2) \<Rightarrow> initNode_catch err s2
       | (Pending, s2) \<Rightarrow> (Pending, s2)
       | (Fulfilled u, s2) \<Rightarrow> (Fulfilled (getNodeHandle None s2), s2))"
    using assms(1) initNode_startup_reaches_time [OF assms(2) cm assms(4)]
    by (simp add: initNode_def Let_def)
  show ?thesis
    unfolding i
    by (auto simp add: initializeRosTime_def initializeRosTime_catch_def Let_def fr
          initNode_catch_frame now_def
          split: sum.splits option.splits)
qed

theorem clock_mode_lookup_witness:
  "rosNode initial_state = None
   \<and> \<not> opt_notime sample_options
   \<and> \<not> useSimTime initial_state
   \<and> statusCode connection_refused = None
   \<and> fst (initNode (sample_env (Inl connection_refused)) ''talker'' sample_options initial_state)
      = Rejected connection_refused
   \<and> statusCode parameter_not_set \<noteq> None
   \<and> fst (initNode (sample_env (Inl parameter_not_set)) ''talker'' sample_options initial_state)
      = Fulfilled (NodeHandle (Some (new_RosNode ''/talker'' (Some ''http://localhost:11311''))) None)
   \<and> paramLookups (snd (initNode (sample_env (Inl parameter_not_set)) ''talker'' sample_options
        initial_state)) = [''/use_sim_time'']
   \<and> \<not> useSimTime (snd (initNode (sample_env (Inl parameter_not_set)) ''talker'' sample_options
        initial_state))
   \<and> fst (now \<lparr>secs = 1700000000, nsecs = 0\<rparr>
        (snd (initNode (sample_env (Inl parameter_not_set)) ''talker'' sample_options
          initial_state)))
      = \<lparr>secs = 1700000000, nsecs = 0\<rparr>
   \<and> statusCode internal_server_error \<noteq> None
   \<and> \<not> useSimTime (snd (initNode (sample_env (Inl internal_server_error)) ''talker''
        sample_options initial_state))"
  using clock_mode_lookup [where s = initial_state and e = "sample_env (Inl connection_refused)"
        and opts = sample_options and n = "''talker''" and err = connection_refused
        and wall = "\<lparr>secs = 1700000000, nsecs = 0\<rparr>"]
    clock_mode_lookup [where s = initial_state and e = "sample_env (Inl parameter_not_set)"
        and opts = sample_options and n = "''talker''" and err = parameter_not_set
        and wall = "\<lparr>secs = 1700000000, nsecs = 0\<rparr>"]
    clock_mode_lookup [where s = initial_state and e = "sample_env (Inl internal_server_error)"
        and opts = sample_options and n = "''talker''" and err = internal_server_error
        and wall = "\<lparr>secs = 1700000000, nsecs = 0\<rparr>"]
  by (simp add: run_defs now_def connection_refused_def parameter_not_set_def
        internal_server_error_def)

end
